theory Spec2Isabelle
  imports Complex_Main
begin

section \<open>Python values and exceptions\<close>

text \<open>
  The services are Python classes.  Optional arguments (\<^verbatim>\<open>Optional[int] = None\<close>) are
  \<open>option\<close> values, dictionaries are maps, and every exception the source can raise is a
  value of the type \<open>error\<close>, returned on the left of a sum.  \<open>GatewayError\<close> stands
  for whatever a call into the chat model or the vector store raises when it fails.
\<close>

datatype error = ValueError | IndexError | KeyError | TypeError | GatewayError

text \<open>Values stored in a document's free-form metadata dictionary.\<close>

datatype pyval = VNone | VBool bool | VInt int | VStr string

text \<open>Values of the \<^verbatim>\<open>**kwargs\<close> handed through to the text-splitter constructors.\<close>

datatype kwval = KBool bool | KInt int | KStr string | KList "kwval list" | KPair kwval kwval

type_synonym kwargs = "string \<rightharpoonup> kwval"

text \<open>\<^verbatim>\<open>x or default\<close> on an optional integer: \<^verbatim>\<open>None\<close> and \<open>0\<close> are both falsy.\<close>

fun py_or :: "int option \<Rightarrow> int \<Rightarrow> int" where
  "py_or None d = d"
| "py_or (Some n) d = (if n = 0 then d else n)"

text \<open>
  \<^verbatim>\<open>if x:\<close> on an optional integer holds exactly when \<open>x\<close> is an integer other than
  \<open>0\<close>; \<open>truthy_int\<close> returns that integer.
\<close>

fun truthy_int :: "int option \<Rightarrow> int option" where
  "truthy_int None = None"
| "truthy_int (Some n) = (if n = 0 then None else Some n)"

text \<open>\<^verbatim>\<open>kwargs.get(key, default)\<close>.\<close>

definition kw_get :: "kwargs \<Rightarrow> string \<Rightarrow> kwval \<Rightarrow> kwval" where
  "kw_get kw key d = (case kw key of None \<Rightarrow> d | Some v \<Rightarrow> v)"

text \<open>Decimal rendering of an integer, as an f-string does it.\<close>

fun nat_digits :: "nat \<Rightarrow> string" where
  "nat_digits n =
     (if n < 10 then [''0123456789'' ! n]
      else nat_digits (n div 10) @ [''0123456789'' ! (n mod 10)])"

declare nat_digits.simps [simp del]

definition str_int :: "int \<Rightarrow> string" where
  "str_int i = (if i < 0 then CHR ''-'' # nat_digits (nat (- i)) else nat_digits (nat i))"

section \<open>Configuration\<close>

text \<open>
  \<^verbatim>\<open>app.core.config\<close> is not among the sources; the three settings the services read are
  the fields of this record, and every statement below holds for any values of them.
\<close>

record settings =
  CHUNK_SIZE :: int
  CHUNK_OVERLAP :: int
  RETRIEVAL_K :: int

section \<open>Documents\<close>

record document =
  page_content :: string
  metadata :: "string \<rightharpoonup> pyval"

section \<open>ChunkingService\<close>

subsection \<open>Splitter objects\<close>

text \<open>
  What \<^verbatim>\<open>_create_splitter\<close> constructs: one constructor per LangChain splitter class,
  carrying the constructor arguments the source passes.
\<close>

datatype splitter =
    RecursiveCharacterTextSplitter int int kwval kwval
  | CharacterTextSplitter int int kwval
  | TokenTextSplitter int int kwval
  | MarkdownHeaderTextSplitter kwval kwval
  | HTMLHeaderTextSplitter kwval
  | SentenceTransformersTokenTextSplitter int kwval

subsection \<open>The LangChain splitters\<close>

text \<open>
  The splitter classes themselves live in \<^verbatim>\<open>langchain_text_splitters\<close>.  They are the
  three fields of \<open>library\<close>: the constructor of a splitter class, which raises when it
  rejects its arguments (a chunk overlap larger than the chunk size, for one);
  \<^verbatim>\<open>splitter.split_text(text)\<close>, which yields documents for the header splitters and
  strings otherwise; and \<^verbatim>\<open>splitter.split_documents(docs)\<close>, which builds every chunk
  with a metadata dictionary of its own.
\<close>

datatype split_out = Documents "document list" | Strings "string list"

record library =
  lib_construct :: "splitter \<Rightarrow> error option"
  lib_split_text :: "splitter \<Rightarrow> string \<Rightarrow> split_out"
  lib_split_documents :: "splitter \<Rightarrow> document list \<Rightarrow> document list"

text \<open>A constructor call: the new splitter, or the exception of the constructor.\<close>

definition construct :: "library \<Rightarrow> splitter \<Rightarrow> error + splitter" where
  "construct lib sp = (case lib_construct lib sp of None \<Rightarrow> Inr sp | Some e \<Rightarrow> Inl e)"

subsection \<open>The splitter cache\<close>

text \<open>
  A splitter object on the Python heap: its identity (the number of splitter objects
  constructed before it) and its configuration.  Two objects built from equal arguments
  are still two objects.
\<close>

type_synonym splitter_obj = "nat \<times> splitter"

record chunking_service =
  settings :: settings
  splitters :: "string \<rightharpoonup> splitter_obj"
  allocated :: nat

text \<open>\<^verbatim>\<open>ChunkingService.__init__\<close>: an empty cache.\<close>

definition ChunkingService :: "settings \<Rightarrow> chunking_service" where
  "ChunkingService st = \<lparr>settings = st, splitters = Map.empty, allocated = 0\<rparr>"

definition default_separators :: kwval where
  "default_separators =
     KList [KStr ''\<newline>\<newline>'', KStr ''\<newline>'', KStr ''. '', KStr '', '', KStr '' '', KStr '''']"

definition default_markdown_headers :: kwval where
  "default_markdown_headers =
     KList [KPair (KStr ''#'') (KStr ''header_1''),
            KPair (KStr ''##'') (KStr ''header_2''),
            KPair (KStr ''###'') (KStr ''header_3'')]"

definition default_html_headers :: kwval where
  "default_html_headers =
     KList [KPair (KStr ''h1'') (KStr ''header_1''),
            KPair (KStr ''h2'') (KStr ''header_2''),
            KPair (KStr ''h3'') (KStr ''header_3'')]"

definition create_splitter :: "library \<Rightarrow> string \<Rightarrow> int \<Rightarrow> int \<Rightarrow> kwargs \<Rightarrow> error + splitter" where
  "create_splitter lib strategy chunk_size chunk_overlap kw =
     (if strategy = ''recursive'' then
        construct lib (RecursiveCharacterTextSplitter chunk_size chunk_overlap
               (kw_get kw ''separators'' default_separators)
               (kw_get kw ''is_separator_regex'' (KBool False)))
      else if strategy = ''character'' then
        construct lib (CharacterTextSplitter chunk_size chunk_overlap
               (kw_get kw ''separator'' (KStr ''\<newline>\<newline>'')))
      else if strategy = ''token'' then
        construct lib (TokenTextSplitter chunk_size chunk_overlap
               (kw_get kw ''encoding_name'' (KStr ''cl100k_base'')))
      else if strategy = ''markdown'' then
        construct lib (MarkdownHeaderTextSplitter
               (kw_get kw ''headers_to_split_on'' default_markdown_headers)
               (kw_get kw ''strip_headers'' (KBool False)))
      else if strategy = ''html'' then
        construct lib (HTMLHeaderTextSplitter
               (kw_get kw ''headers_to_split_on'' default_html_headers))
      else if strategy = ''semantic'' then
        construct lib (SentenceTransformersTokenTextSplitter (min chunk_overlap 50)
               (kw_get kw ''tokens_per_chunk'' (KInt 256)))
      else Inl ValueError)"

definition cache_key :: "string \<Rightarrow> int \<Rightarrow> int \<Rightarrow> string" where
  "cache_key strategy chunk_size chunk_overlap =
     strategy @ ''_'' @ str_int chunk_size @ ''_'' @ str_int chunk_overlap"

text \<open>
  \<^verbatim>\<open>get_splitter\<close> returns the splitter and the service as the call leaves it.  When
  \<^verbatim>\<open>_create_splitter\<close> raises, for an unknown strategy or from the constructor, nothing
  has been stored.
\<close>

definition get_splitter ::
  "library \<Rightarrow> chunking_service \<Rightarrow> string \<Rightarrow> int option \<Rightarrow> int option \<Rightarrow> kwargs
     \<Rightarrow> (error + splitter_obj) \<times> chunking_service" where
  "get_splitter lib self strategy chunk_size chunk_overlap kw =
     (let cs = py_or chunk_size (CHUNK_SIZE (settings self));
          co = py_or chunk_overlap (CHUNK_OVERLAP (settings self));
          key = cache_key strategy cs co
      in case splitters self key of
           Some obj \<Rightarrow> (Inr obj, self)
         | None \<Rightarrow>
             (case create_splitter lib strategy cs co kw of
                Inl e \<Rightarrow> (Inl e, self)
              | Inr sp \<Rightarrow>
                  (Inr (allocated self, sp),
                   self\<lparr>splitters := (splitters self)(key \<mapsto> (allocated self, sp)),
                        allocated := Suc (allocated self)\<rparr>)))"

subsection \<open>split_text\<close>

text \<open>\<^verbatim>\<open>metadata or {}\<close>.\<close>

fun metadata_or_empty :: "(string \<rightharpoonup> pyval) option \<Rightarrow> (string \<rightharpoonup> pyval)" where
  "metadata_or_empty None = Map.empty"
| "metadata_or_empty (Some m) = m"

text \<open>
  \<^verbatim>\<open>chunks[0]\<close> is read before anything else is done with the header splitter's output,
  so an empty output raises \<^verbatim>\<open>IndexError\<close>.  The header splitters of the library return
  documents; the branch for strings is kept as the source has it, every document built
  there holding its own copy of the metadata.
\<close>

fun structural_docs :: "split_out \<Rightarrow> (string \<rightharpoonup> pyval) option \<Rightarrow> error + document list" where
  "structural_docs (Documents []) md = Inl IndexError"
| "structural_docs (Strings []) md = Inl IndexError"
| "structural_docs (Documents ds) md = Inr ds"
| "structural_docs (Strings cs) md =
     Inr (map (\<lambda>c. \<lparr>page_content = c, metadata = metadata_or_empty md\<rparr>) cs)"

text \<open>The loop of the secondary pass over the structural chunks.\<close>

fun second_pass :: "library \<Rightarrow> splitter \<Rightarrow> int \<Rightarrow> document list \<Rightarrow> document list" where
  "second_pass lib rs chunk_size [] = []"
| "second_pass lib rs chunk_size (d # ds) =
     (if int (length (page_content d)) > chunk_size
      then lib_split_documents lib rs [d] else [d])
     @ second_pass lib rs chunk_size ds"

text \<open>
  The closing loop \<^verbatim>\<open>for i, d in enumerate(docs)\<close>: \<open>i\<close> is the running index and \<open>n\<close>
  is \<^verbatim>\<open>len(docs)\<close> of the whole list.
\<close>

fun stamp :: "nat \<Rightarrow> nat \<Rightarrow> document list \<Rightarrow> document list" where
  "stamp i n [] = []"
| "stamp i n (d # ds) =
     d\<lparr>metadata := (metadata d)(''chunk_index'' \<mapsto> VInt (int i),
                                  ''total_chunks'' \<mapsto> VInt (int n))\<rparr>
     # stamp (Suc i) n ds"

definition is_structural :: "string \<Rightarrow> bool" where
  "is_structural strategy \<longleftrightarrow> strategy \<in> set [''markdown'', ''html'']"

definition split_text ::
  "library \<Rightarrow> chunking_service \<Rightarrow> string \<Rightarrow> string \<Rightarrow> int option \<Rightarrow> int option
     \<Rightarrow> (string \<rightharpoonup> pyval) option \<Rightarrow> kwargs
     \<Rightarrow> (error + document list) \<times> chunking_service" where
  "split_text lib self text strategy chunk_size chunk_overlap md kw =
     (case get_splitter lib self strategy chunk_size chunk_overlap kw of
        (Inl e, s1) \<Rightarrow> (Inl e, s1)
      | (Inr (_, sp), s1) \<Rightarrow>
          (let doc = \<lparr>page_content = text, metadata = metadata_or_empty md\<rparr> in
           if is_structural strategy then
             (case structural_docs (lib_split_text lib sp text) md of
                Inl e \<Rightarrow> (Inl e, s1)
              | Inr docs \<Rightarrow>
                  (case truthy_int chunk_size of
                     Some n \<Rightarrow>
                       (case get_splitter lib s1 ''recursive'' chunk_size chunk_overlap Map.empty of
                          (Inl e, s2) \<Rightarrow> (Inl e, s2)
                        | (Inr (_, rs), s2) \<Rightarrow>
                            (let final_docs = second_pass lib rs n docs
                             in (Inr (stamp 0 (length final_docs) final_docs), s2)))
                   | None \<Rightarrow> (Inr (stamp 0 (length docs) docs), s1)))
           else
             (let docs = lib_split_documents lib sp [doc]
              in (Inr (stamp 0 (length docs) docs), s1))))"

subsection \<open>split_documents\<close>

text \<open>The loop over the documents in the branch for the header splitters.\<close>

fun split_each ::
  "library \<Rightarrow> chunking_service \<Rightarrow> document list \<Rightarrow> string \<Rightarrow> int option \<Rightarrow> int option
     \<Rightarrow> kwargs \<Rightarrow> (error + document list) \<times> chunking_service" where
  "split_each lib self [] strategy chunk_size chunk_overlap kw = (Inr [], self)"
| "split_each lib self (doc # docs) strategy chunk_size chunk_overlap kw =
     (case split_text lib self (page_content doc) strategy chunk_size chunk_overlap
             (Some (metadata doc)) kw of
        (Inl e, s1) \<Rightarrow> (Inl e, s1)
      | (Inr chunks, s1) \<Rightarrow>
          (case split_each lib s1 docs strategy chunk_size chunk_overlap kw of
             (Inl e, s2) \<Rightarrow> (Inl e, s2)
           | (Inr rest, s2) \<Rightarrow> (Inr (chunks @ rest), s2)))"

definition split_documents ::
  "library \<Rightarrow> chunking_service \<Rightarrow> document list \<Rightarrow> string \<Rightarrow> int option \<Rightarrow> int option
     \<Rightarrow> kwargs \<Rightarrow> (error + document list) \<times> chunking_service" where
  "split_documents lib self documents strategy chunk_size chunk_overlap kw =
     (case get_splitter lib self strategy chunk_size chunk_overlap kw of
        (Inl e, s1) \<Rightarrow> (Inl e, s1)
      | (Inr (_, sp), s1) \<Rightarrow>
          (if is_structural strategy
           then split_each lib s1 documents strategy chunk_size chunk_overlap kw
           else (Inr (lib_split_documents lib sp documents), s1)))"

subsection \<open>estimate_chunks\<close>

record estimate =
  est_text_length :: int
  est_chunk_size :: int
  est_chunk_overlap :: int
  estimated_chunks :: int
  est_strategy :: string

text \<open>\<open>div\<close> on \<open>int\<close> rounds towards minus infinity, as Python's \<^verbatim>\<open>//\<close> does.\<close>

definition estimate_chunks ::
  "chunking_service \<Rightarrow> string \<Rightarrow> string \<Rightarrow> int option \<Rightarrow> int option \<Rightarrow> estimate" where
  "estimate_chunks self text strategy chunk_size chunk_overlap =
     (let cs = py_or chunk_size (CHUNK_SIZE (settings self));
          co = py_or chunk_overlap (CHUNK_OVERLAP (settings self));
          text_length = int (length text);
          effective_chunk = cs - co
      in \<lparr>est_text_length = text_length,
          est_chunk_size = cs,
          est_chunk_overlap = co,
          estimated_chunks =
            (if effective_chunk \<le> 0 then 1
             else max 1 ((text_length - co) div effective_chunk)),
          est_strategy = strategy\<rparr>)"

text \<open>
  The closed form the specification gives for the estimate, with the ceiling of the
  quotient written on integers: \<open>max(1, ceil((len - overlap) / (size - overlap)))\<close>.
\<close>

definition spec_estimate :: "int \<Rightarrow> int \<Rightarrow> int \<Rightarrow> int" where
  "spec_estimate len sz ov = max 1 (- ((- (len - ov)) div (sz - ov)))"

subsection \<open>get_optimal_strategy\<close>

record recommendation =
  rec_strategy :: string
  rec_chunk_size :: int
  rec_chunk_overlap :: int
  rec_separators :: "string list option"
  rec_separator :: "string option"
  rec_reason :: string

definition general_recommendation :: recommendation where
  "general_recommendation =
     \<lparr>rec_strategy = ''recursive'', rec_chunk_size = 1000, rec_chunk_overlap = 200,
      rec_separators = None, rec_separator = None,
      rec_reason = ''Best general-purpose strategy''\<rparr>"

definition recommendations :: "(string \<times> recommendation) list" where
  "recommendations =
     [(''markdown'',
       \<lparr>rec_strategy = ''markdown'', rec_chunk_size = 1000, rec_chunk_overlap = 200,
        rec_separators = None, rec_separator = None,
        rec_reason = ''Preserves markdown structure and headers''\<rparr>),
      (''html'',
       \<lparr>rec_strategy = ''html'', rec_chunk_size = 1000, rec_chunk_overlap = 200,
        rec_separators = None, rec_separator = None,
        rec_reason = ''Preserves HTML structure and semantic tags''\<rparr>),
      (''code'',
       \<lparr>rec_strategy = ''recursive'', rec_chunk_size = 1500, rec_chunk_overlap = 200,
        rec_separators =
          Some [''\<newline>\<newline>'', ''\<newline>def '', ''\<newline>class '', ''\<newline>'', '' ''],
        rec_separator = None,
        rec_reason = ''Respects code block boundaries''\<rparr>),
      (''conversation'',
       \<lparr>rec_strategy = ''character'', rec_chunk_size = 500, rec_chunk_overlap = 50,
        rec_separators = None, rec_separator = Some ''\<newline>'',
        rec_reason = ''Keeps conversation turns together''\<rparr>),
      (''structured'',
       \<lparr>rec_strategy = ''semantic'', rec_chunk_size = 512, rec_chunk_overlap = 50,
        rec_separators = None, rec_separator = None,
        rec_reason = ''Semantic boundaries for structured data''\<rparr>),
      (''general'', general_recommendation)]"

text \<open>\<^verbatim>\<open>recommendations.get(content_type, recommendations["general"])\<close>.\<close>

definition lookup_recommendation :: "string \<Rightarrow> recommendation" where
  "lookup_recommendation content_type =
     (case map_of recommendations content_type of
        None \<Rightarrow> general_recommendation
      | Some r \<Rightarrow> r)"

definition get_optimal_strategy :: "string \<Rightarrow> int \<Rightarrow> recommendation" where
  "get_optimal_strategy content_type avg_doc_length =
     (let rec = lookup_recommendation content_type
      in if avg_doc_length < 500 then
           (let rec1 = rec\<lparr>rec_chunk_size := min (rec_chunk_size rec) avg_doc_length\<rparr>
            in rec1\<lparr>rec_chunk_overlap :=
                      min (rec_chunk_overlap rec1) (rec_chunk_size rec1 div 5)\<rparr>)
         else rec)"

subsection \<open>Projections of a chunk list\<close>





section \<open>RAGService\<close>

subsection \<open>Events, messages and the gateways\<close>

datatype message = SystemMessage string | HumanMessage string | AIMessage string

record source =
  src_content :: string
  src_metadata :: "string \<rightharpoonup> pyval"
  src_score :: pyval

text \<open>The event dictionaries \<^verbatim>\<open>{"type": ..., "data": ...}\<close> that \<^verbatim>\<open>query\<close> yields.\<close>

datatype event = Sources "source list" | Token string | Done

fun event_type :: "event \<Rightarrow> string" where
  "event_type (Sources _) = ''sources''"
| "event_type (Token _) = ''token''"
| "event_type Done = ''done''"

text \<open>
  The calls that leave the process: the retriever of the vector store, the two entry
  points of the chat model, and the two searches of the vector store.
\<close>

datatype call =
    RetrieverInvoke string int string
  | ChatAstream "message list"
  | ChatAinvoke "message list"
  | SimilaritySearch string int "(string \<rightharpoonup> pyval) option"
  | MaxMarginalRelevanceSearch string int int real

text \<open>
  What those calls answer is outside the repository: each is a field of \<open>gateways\<close>.
  \<^verbatim>\<open>query\<close> has no handler around its calls, so what they raise ends the query:
  \<^item> \<open>as_retriever\<close> is \<^verbatim>\<open>get_retriever\<close> down to \<^verbatim>\<open>vectorstore.as_retriever\<close>, which
    raises, for one, on a search type the library does not know;
  \<^item> \<open>retriever_invoke\<close> answers with the documents or raises;
  \<^item> \<open>chat_astream\<close> gives the \<^verbatim>\<open>content\<close> of the chunks of one streamed answer, in
    order, and the exception that cut the stream short, if any;
  \<^item> \<open>chat_ainvoke\<close> answers with the content of the response or raises.
\<close>

record gateways =
  as_retriever :: "string \<Rightarrow> int \<Rightarrow> error option"
  retriever_invoke :: "string \<Rightarrow> int \<Rightarrow> string \<Rightarrow> error + document list"
  chat_astream :: "message list \<Rightarrow> string list \<times> error option"
  chat_ainvoke :: "message list \<Rightarrow> error + string"
  similarity_search :: "string \<Rightarrow> int \<Rightarrow> (string \<rightharpoonup> pyval) option \<Rightarrow> document list"
  max_marginal_relevance_search :: "string \<Rightarrow> int \<Rightarrow> int \<Rightarrow> real \<Rightarrow> document list"

text \<open>
  One run of an asynchronous generator: the gateway calls it makes and the events it
  yields, in program order.  A run that raises stops there and carries the exception.
\<close>

datatype step = Call call | Yield event

fun events_of :: "step list \<Rightarrow> event list" where
  "events_of [] = []"
| "events_of (Call c # t) = events_of t"
| "events_of (Yield e # t) = e # events_of t"

fun calls_of :: "step list \<Rightarrow> call list" where
  "calls_of [] = []"
| "calls_of (Call c # t) = c # calls_of t"
| "calls_of (Yield e # t) = calls_of t"

text \<open>
  \<open>qa_system_text\<close> is the literal system text of \<^verbatim>\<open>_create_qa_prompt\<close> up to its
  \<^verbatim>\<open>{context}\<close> placeholder.
\<close>

record rag_service =
  rag_settings :: settings
  qa_system_text :: string

subsection \<open>Context assembly\<close>

fun truthy :: "pyval option \<Rightarrow> bool" where
  "truthy None = False"
| "truthy (Some VNone) = False"
| "truthy (Some (VBool b)) = b"
| "truthy (Some (VInt i)) = (i \<noteq> 0)"
| "truthy (Some (VStr s)) = (s \<noteq> [])"

fun py_str :: "pyval \<Rightarrow> string" where
  "py_str VNone = ''None''"
| "py_str (VBool b) = (if b then ''True'' else ''False'')"
| "py_str (VInt i) = str_int i"
| "py_str (VStr s) = s"

fun join :: "string \<Rightarrow> string list \<Rightarrow> string" where
  "join sep [] = []"
| "join sep [x] = x"
| "join sep (x # y # ys) = x @ sep @ join sep (y # ys)"

definition source_info :: "document \<Rightarrow> string" where
  "source_info doc =
     (if truthy (metadata doc ''source'')
      then '' (source: '' @ py_str (the (metadata doc ''source'')) @ '')''
      else [])"

fun format_from :: "nat \<Rightarrow> document list \<Rightarrow> string list" where
  "format_from i [] = []"
| "format_from i (doc # docs) =
     (''['' @ str_int (int i) @ '']'' @ source_info doc @ '' '' @ page_content doc)
     # format_from (Suc i) docs"

definition format_docs :: "document list \<Rightarrow> string" where
  "format_docs docs = join ''\<newline>\<newline>'' (format_from 1 docs)"

subsection \<open>query\<close>

text \<open>\<^verbatim>\<open>doc.metadata.get("score")\<close>: \<^verbatim>\<open>None\<close> when the key is absent.\<close>

definition source_of :: "document \<Rightarrow> source" where
  "source_of doc =
     \<lparr>src_content = page_content doc,
      src_metadata = metadata doc,
      src_score = (case metadata doc ''score'' of None \<Rightarrow> VNone | Some v \<Rightarrow> v)\<rparr>"

text \<open>
  The loop over \<^verbatim>\<open>chat_history\<close>.  \<^verbatim>\<open>msg.get("role")\<close> tolerates a missing role;
  \<^verbatim>\<open>msg["content"]\<close> raises \<^verbatim>\<open>KeyError\<close> on a user or assistant turn without content.
\<close>

fun history_messages :: "(string \<rightharpoonup> string) list \<Rightarrow> error + message list" where
  "history_messages [] = Inr []"
| "history_messages (msg # rest) =
     (if msg ''role'' = Some ''user'' then
        (case msg ''content'' of
           None \<Rightarrow> Inl KeyError
         | Some c \<Rightarrow>
             (case history_messages rest of
                Inl e \<Rightarrow> Inl e
              | Inr ms \<Rightarrow> Inr (HumanMessage c # ms)))
      else if msg ''role'' = Some ''assistant'' then
        (case msg ''content'' of
           None \<Rightarrow> Inl KeyError
         | Some c \<Rightarrow>
             (case history_messages rest of
                Inl e \<Rightarrow> Inl e
              | Inr ms \<Rightarrow> Inr (AIMessage c # ms)))
      else history_messages rest)"

text \<open>\<^verbatim>\<open>if chat_history:\<close> skips the loop for \<^verbatim>\<open>None\<close> and for the empty list.\<close>

fun convert_history :: "(string \<rightharpoonup> string) list option \<Rightarrow> error + message list" where
  "convert_history None = Inr []"
| "convert_history (Some h) = history_messages h"

text \<open>\<^verbatim>\<open>self._qa_prompt.format_messages(context=..., input=..., chat_history=...)\<close>.\<close>

definition format_messages :: "rag_service \<Rightarrow> string \<Rightarrow> string \<Rightarrow> message list \<Rightarrow> message list" where
  "format_messages self context input chat_history =
     [SystemMessage (qa_system_text self @ context)] @ chat_history @ [HumanMessage input]"

text \<open>
  The end of the streaming branch: \<^verbatim>\<open>done\<close> is yielded after the loop, so only when
  the stream was not cut short.
\<close>

fun stream_end :: "error option \<Rightarrow> step list" where
  "stream_end None = [Yield Done]"
| "stream_end (Some e) = []"

definition query ::
  "gateways \<Rightarrow> rag_service \<Rightarrow> string \<Rightarrow> bool \<Rightarrow> bool \<Rightarrow> int option \<Rightarrow> string
     \<Rightarrow> (string \<rightharpoonup> string) list option \<Rightarrow> step list \<times> error option" where
  "query gw self question stream include_sources k search_type chat_history =
     (let k1 = py_or k (RETRIEVAL_K (rag_settings self)) in
      case as_retriever gw search_type k1 of
        Some e \<Rightarrow> ([], Some e)
      | None \<Rightarrow>
          (case retriever_invoke gw search_type k1 question of
             Inl e \<Rightarrow> ([Call (RetrieverInvoke search_type k1 question)], Some e)
           | Inr docs \<Rightarrow>
               (let retrieved =
                      Call (RetrieverInvoke search_type k1 question)
                      # (if include_sources then [Yield (Sources (map source_of docs))]
                         else []);
                    context = format_docs docs
                in case convert_history chat_history of
                     Inl e \<Rightarrow> (retrieved, Some e)
                   | Inr messages \<Rightarrow>
                       (let prompt_messages =
                              format_messages self context question messages in
                        if stream then
                          (case chat_astream gw prompt_messages of
                             (chunks, failure) \<Rightarrow>
                               (retrieved
                                @ Call (ChatAstream prompt_messages)
                                  # map (\<lambda>c. Yield (Token c)) (filter (\<lambda>c. c \<noteq> []) chunks)
                                @ stream_end failure,
                                failure))
                        else
                          (case chat_ainvoke gw prompt_messages of
                             Inl e \<Rightarrow>
                               (retrieved @ [Call (ChatAinvoke prompt_messages)], Some e)
                           | Inr response \<Rightarrow>
                               (retrieved
                                @ [Call (ChatAinvoke prompt_messages),
                                   Yield (Token response),
                                   Yield Done],
                                None))))))"




subsection \<open>search, mmr_search and indexing\<close>

record hit =
  hit_content :: string
  hit_metadata :: "string \<rightharpoonup> pyval"

definition hit_of :: "document \<Rightarrow> hit" where
  "hit_of doc = \<lparr>hit_content = page_content doc, hit_metadata = metadata doc\<rparr>"

text \<open>A parameter with a default: \<open>None\<close> stands for an argument the caller left out.\<close>

fun with_default :: "'a \<Rightarrow> 'a option \<Rightarrow> 'a" where
  "with_default d None = d"
| "with_default d (Some v) = v"

text \<open>\<^verbatim>\<open>if filter:\<close> on an optional dictionary; the vector store is asked without a filter
  when it is \<^verbatim>\<open>None\<close> or empty.\<close>

fun truthy_dict :: "(string \<rightharpoonup> pyval) option \<Rightarrow> (string \<rightharpoonup> pyval) option" where
  "truthy_dict None = None"
| "truthy_dict (Some m) = (if m = Map.empty then None else Some m)"

text \<open>\<^verbatim>\<open>QdrantService.similarity_search\<close> and \<^verbatim>\<open>QdrantService.mmr_search\<close>.\<close>

definition qdrant_similarity_search ::
  "gateways \<Rightarrow> string \<Rightarrow> int option \<Rightarrow> (string \<rightharpoonup> pyval) option
     \<Rightarrow> call list \<times> document list" where
  "qdrant_similarity_search gw q k flt =
     (let k1 = with_default 5 k; f1 = truthy_dict flt
      in ([SimilaritySearch q k1 f1], similarity_search gw q k1 f1))"

definition qdrant_mmr_search ::
  "gateways \<Rightarrow> string \<Rightarrow> int option \<Rightarrow> int option \<Rightarrow> real option
     \<Rightarrow> call list \<times> document list" where
  "qdrant_mmr_search gw q k fetch_k lambda_mult =
     (let k1 = with_default 5 k; fetch_k1 = with_default 20 fetch_k; l1 = with_default (1 / 2) lambda_mult
      in ([MaxMarginalRelevanceSearch q k1 fetch_k1 l1],
          max_marginal_relevance_search gw q k1 fetch_k1 l1))"

text \<open>\<^verbatim>\<open>RAGService.search\<close> and \<^verbatim>\<open>RAGService.mmr_search\<close>.\<close>

definition search ::
  "gateways \<Rightarrow> string \<Rightarrow> int option \<Rightarrow> string option \<Rightarrow> (string \<rightharpoonup> pyval) option
     \<Rightarrow> call list \<times> hit list" where
  "search gw q k search_type filters =
     (case qdrant_similarity_search gw q (Some (with_default 5 k)) filters of
        (calls, docs) \<Rightarrow> (calls, map hit_of docs))"

definition mmr_search ::
  "gateways \<Rightarrow> string \<Rightarrow> int option \<Rightarrow> int option \<Rightarrow> real option \<Rightarrow> call list \<times> hit list" where
  "mmr_search gw q k fetch_k lambda_mult =
     (case qdrant_mmr_search gw q (Some (with_default 5 k)) (Some (with_default 20 fetch_k))
             (Some (with_default (1 / 2) lambda_mult)) of
        (calls, docs) \<Rightarrow> (calls, map hit_of docs))"

text \<open>The candidate pool sizes an MMR search asks the vector store for.\<close>

fun fetch_ks :: "call list \<Rightarrow> int list" where
  "fetch_ks [] = []"
| "fetch_ks (MaxMarginalRelevanceSearch q k fetch_k l # cs) = fetch_k # fetch_ks cs"
| "fetch_ks (c # cs) = fetch_ks cs"

text \<open>
  \<^verbatim>\<open>RAGService.index_documents\<close>: \<^verbatim>\<open>QdrantService.add_documents\<close> draws one fresh id for
  each document and returns the ids, so the count is the number of documents.
\<close>

definition index_documents :: "document list \<Rightarrow> string option \<Rightarrow> int" where
  "index_documents documents collection = int (length documents)"


subsection \<open>The service as its callers see it\<close>

text \<open>
  The calls a client can make on one \<^verbatim>\<open>ChunkingService\<close> that reach its cache, and the
  service each of them leaves behind, whether it returns or raises.
\<close>

datatype operation =
    GetSplitter string "int option" "int option" kwargs
  | SplitText string string "int option" "int option" "(string \<rightharpoonup> pyval) option" kwargs
  | SplitDocuments "document list" string "int option" "int option" kwargs

fun run :: "library \<Rightarrow> operation \<Rightarrow> chunking_service \<Rightarrow> chunking_service" where
  "run lib (GetSplitter strategy cs co kw) self = snd (get_splitter lib self strategy cs co kw)"
| "run lib (SplitText text strategy cs co md kw) self =
     snd (split_text lib self text strategy cs co md kw)"
| "run lib (SplitDocuments docs strategy cs co kw) self =
     snd (split_documents lib self docs strategy cs co kw)"

definition run_all :: "library \<Rightarrow> operation list \<Rightarrow> chunking_service \<Rightarrow> chunking_service" where
  "run_all lib ops self = fold (run lib) ops self"

text \<open>
  \<open>keeps s s'\<close>: the service \<open>s'\<close> has the settings of \<open>s\<close> and still holds every
  cache entry of \<open>s\<close>, unchanged.
\<close>

definition keeps :: "chunking_service \<Rightarrow> chunking_service \<Rightarrow> bool" where
  "keeps s s' \<longleftrightarrow>
     settings s' = settings s \<and>
     (\<forall>key obj. splitters s key = Some obj \<longrightarrow> splitters s' key = Some obj)"

section \<open>Calls with keyword arguments\<close>

text \<open>
  The route handlers call the service with keyword arguments only.  Python binds each
  keyword to the parameter of that name; a keyword that names no parameter raises
  \<^verbatim>\<open>TypeError\<close> (none of the methods takes \<^verbatim>\<open>**kwargs\<close>), and so does a parameter
  without default that no keyword provides.  The check happens when the call is made,
  before the body runs, also for \<^verbatim>\<open>async def\<close> functions and generators.
\<close>

datatype arg =
    ANone | ABool bool | AInt int | AReal real | AStr string | AStrs "string list"
  | ADict "string \<rightharpoonup> pyval" | ADicts "(string \<rightharpoonup> pyval) list"
  | ADocs "document list" | ATurns "(string \<rightharpoonup> string) list"

definition call_kw ::
  "string list \<Rightarrow> string list \<Rightarrow> ((string \<rightharpoonup> arg) \<Rightarrow> 'r) \<Rightarrow> (string \<times> arg) list \<Rightarrow> error + 'r" where
  "call_kw params required body kwargs =
     (if set (map fst kwargs) \<subseteq> set params \<and> set required \<subseteq> set (map fst kwargs)
      then Inr (body (map_of kwargs))
      else Inl TypeError)"

text \<open>An optional value as an argument: \<^verbatim>\<open>None\<close> or the value.\<close>

fun opt_arg :: "('a \<Rightarrow> arg) \<Rightarrow> 'a option \<Rightarrow> arg" where
  "opt_arg f None = ANone"
| "opt_arg f (Some v) = f v"

text \<open>
  Reading a bound parameter in the body.  The first argument of \<open>arg_str\<close> and
  \<open>arg_bool\<close> is the default of the signature, used when the keyword is absent.
\<close>

fun arg_str :: "string \<Rightarrow> arg option \<Rightarrow> string" where
  "arg_str d (Some (AStr s)) = s"
| "arg_str d _ = d"

fun arg_bool :: "bool \<Rightarrow> arg option \<Rightarrow> bool" where
  "arg_bool d (Some (ABool b)) = b"
| "arg_bool d _ = d"

fun arg_int :: "arg option \<Rightarrow> int option" where
  "arg_int (Some (AInt i)) = Some i"
| "arg_int _ = None"

fun arg_str_opt :: "arg option \<Rightarrow> string option" where
  "arg_str_opt (Some (AStr s)) = Some s"
| "arg_str_opt _ = None"

fun arg_dict :: "arg option \<Rightarrow> (string \<rightharpoonup> pyval) option" where
  "arg_dict (Some (ADict m)) = Some m"
| "arg_dict _ = None"

fun arg_docs :: "arg option \<Rightarrow> document list" where
  "arg_docs (Some (ADocs ds)) = ds"
| "arg_docs _ = []"

fun arg_turns :: "arg option \<Rightarrow> (string \<rightharpoonup> string) list option" where
  "arg_turns (Some (ATurns h)) = Some h"
| "arg_turns _ = None"

text \<open>The signatures of the three methods the routes call, and their bodies.\<close>

definition query_params :: "string list" where
  "query_params =
     [''question'', ''stream'', ''include_sources'', ''k'', ''search_type'', ''chat_history'']"

definition query_required :: "string list" where
  "query_required = [''question'']"

definition query_method ::
  "gateways \<Rightarrow> rag_service \<Rightarrow> (string \<rightharpoonup> arg) \<Rightarrow> step list \<times> error option" where
  "query_method gw self args =
     query gw self (arg_str [] (args ''question'')) (arg_bool True (args ''stream''))
       (arg_bool True (args ''include_sources'')) (arg_int (args ''k''))
       (arg_str ''similarity'' (args ''search_type'')) (arg_turns (args ''chat_history''))"

definition search_params :: "string list" where
  "search_params = [''query'', ''k'', ''search_type'', ''filters'']"

definition search_required :: "string list" where
  "search_required = [''query'']"

definition search_method :: "gateways \<Rightarrow> (string \<rightharpoonup> arg) \<Rightarrow> call list \<times> hit list" where
  "search_method gw args =
     search gw (arg_str [] (args ''query'')) (arg_int (args ''k''))
       (arg_str_opt (args ''search_type'')) (arg_dict (args ''filters''))"

definition index_documents_params :: "string list" where
  "index_documents_params = [''documents'', ''collection'']"

definition index_documents_required :: "string list" where
  "index_documents_required = [''documents'']"

definition index_documents_method :: "(string \<rightharpoonup> arg) \<Rightarrow> int" where
  "index_documents_method args =
     index_documents (arg_docs (args ''documents'')) (arg_str_opt (args ''collection''))"

section \<open>Routes\<close>

record chat_request =
  req_message :: string
  req_conversation_id :: "string option"
  req_include_sources :: bool
  req_filters :: "(string \<rightharpoonup> pyval) option"

text \<open>
  \<^verbatim>\<open>POST /chat/\<close>: the events behind the frames of the streaming response (each frame is
  \<^verbatim>\<open>"data: " + json.dumps(event)\<close> and a blank line) and the exception that ends the
  stream, if any.
\<close>

definition chat :: "gateways \<Rightarrow> rag_service \<Rightarrow> chat_request \<Rightarrow> event list \<times> error option" where
  "chat gw rag request =
     (case call_kw query_params query_required (query_method gw rag)
             [(''question'', AStr (req_message request)),
              (''include_sources'', ABool (req_include_sources request)),
              (''filters'', opt_arg ADict (req_filters request))] of
        Inl e \<Rightarrow> ([], Some e)
      | Inr (trace, err) \<Rightarrow> (events_of trace, err))"

record index_request =
  texts :: "string list"
  metadatas :: "(string \<rightharpoonup> pyval) list option"
  collection :: "string option"

record search_request =
  req_query :: string
  req_k :: int
  score_threshold :: "real option"
  req_search_filters :: "(string \<rightharpoonup> pyval) option"

text \<open>\<^verbatim>\<open>request.collection or "default"\<close>.\<close>

fun collection_or_default :: "string option \<Rightarrow> string" where
  "collection_or_default None = ''default''"
| "collection_or_default (Some c) = (if c = [] then ''default'' else c)"

text \<open>\<^verbatim>\<open>POST /rag/index\<close> and \<^verbatim>\<open>POST /rag/search\<close>.\<close>

definition index_documents_route :: "index_request \<Rightarrow> error + int \<times> string" where
  "index_documents_route request =
     (case call_kw index_documents_params index_documents_required index_documents_method
             [(''texts'', AStrs (texts request)),
              (''metadatas'', opt_arg ADicts (metadatas request)),
              (''collection'', opt_arg AStr (collection request))] of
        Inl e \<Rightarrow> Inl e
      | Inr count \<Rightarrow> Inr (count, collection_or_default (collection request)))"

definition search_route :: "gateways \<Rightarrow> search_request \<Rightarrow> error + hit list" where
  "search_route gw request =
     (case call_kw search_params search_required (search_method gw)
             [(''query'', AStr (req_query request)),
              (''k'', AInt (req_k request)),
              (''score_threshold'', opt_arg AReal (score_threshold request)),
              (''filters'', opt_arg ADict (req_search_filters request))] of
        Inl e \<Rightarrow> Inl e
      | Inr (calls, hits) \<Rightarrow> Inr hits)"

section \<open>Example collaborators\<close>

text \<open>
  Concrete settings, a concrete splitter library and concrete gateways, on which the
  definitions above are evaluated.  The library's constructors refuse an overlap larger
  than the chunk size; it cuts a text into windows of the splitter's chunk size; its
  header splitters return the whole text as one document, and nothing for an empty text.
\<close>

definition example_settings :: settings where
  "example_settings = \<lparr>CHUNK_SIZE = 10, CHUNK_OVERLAP = 2, RETRIEVAL_K = 5\<rparr>"

fun pieces :: "nat \<Rightarrow> string \<Rightarrow> string \<Rightarrow> string list" where
  "pieces w cur [] = (if cur = [] then [] else [cur])"
| "pieces w cur (c # cs) =
     (if w \<le> Suc (length cur) then (cur @ [c]) # pieces w [] cs
      else pieces w (cur @ [c]) cs)"

fun splitter_width :: "splitter \<Rightarrow> nat" where
  "splitter_width (RecursiveCharacterTextSplitter cs co seps rx) = nat cs"
| "splitter_width (CharacterTextSplitter cs co sep) = nat cs"
| "splitter_width (TokenTextSplitter cs co enc) = nat cs"
| "splitter_width (SentenceTransformersTokenTextSplitter co tpc) = 256"
| "splitter_width (MarkdownHeaderTextSplitter hs strip) = 0"
| "splitter_width (HTMLHeaderTextSplitter hs) = 0"

definition window_documents :: "splitter \<Rightarrow> document \<Rightarrow> document list" where
  "window_documents sp d =
     map (\<lambda>c. \<lparr>page_content = c, metadata = metadata d\<rparr>)
       (pieces (splitter_width sp) [] (page_content d))"

fun window_construct :: "splitter \<Rightarrow> error option" where
  "window_construct (RecursiveCharacterTextSplitter cs co seps rx) =
     (if co > cs then Some ValueError else None)"
| "window_construct (CharacterTextSplitter cs co sep) =
     (if co > cs then Some ValueError else None)"
| "window_construct (TokenTextSplitter cs co enc) =
     (if co > cs then Some ValueError else None)"
| "window_construct sp = None"

definition window_library :: library where
  "window_library =
     \<lparr>lib_construct = window_construct,
      lib_split_text =
        (\<lambda>sp text. Documents (if text = [] then []
                               else [\<lparr>page_content = text, metadata = Map.empty\<rparr>])),
      lib_split_documents = (\<lambda>sp docs. concat (map (window_documents sp) docs))\<rparr>"

definition example_gateways :: gateways where
  "example_gateways =
     \<lparr>as_retriever = (\<lambda>search_type k. None),
      retriever_invoke =
        (\<lambda>search_type k q. Inr [\<lparr>page_content = ''Paris'', metadata = Map.empty\<rparr>]),
      chat_astream = (\<lambda>msgs. ([''Pa'', [], ''ris''], None)),
      chat_ainvoke = (\<lambda>msgs. Inr ''Paris''),
      similarity_search = (\<lambda>q k f. []),
      max_marginal_relevance_search = (\<lambda>q k fetch_k l. [])\<rparr>"

text \<open>The same gateways with a chat model that breaks off after the first chunk.\<close>

definition failing_gateways :: gateways where
  "failing_gateways =
     example_gateways\<lparr>chat_astream := (\<lambda>msgs. ([''Pa''], Some GatewayError)),
                      chat_ainvoke := (\<lambda>msgs. Inl GatewayError)\<rparr>"

definition example_rag :: rag_service where
  "example_rag = \<lparr>rag_settings = example_settings, qa_system_text = ''Contexte: ''\<rparr>"



section \<open>The splitter cache\<close>

lemma keeps_refl: "keeps s s"
  by (simp add: keeps_def)

lemma keeps_trans: "keeps a b \<Longrightarrow> keeps b c \<Longrightarrow> keeps a c"
  by (simp add: keeps_def)

lemma get_splitter_keeps: "keeps self (snd (get_splitter lib self strategy cs co kw))"
  by (auto simp: get_splitter_def keeps_def Let_def split: option.splits sum.splits)

lemma get_splitter_result_keeps: "get_splitter lib self strategy cs co kw = (r, s') \<Longrightarrow> keeps self s'"
  using get_splitter_keeps [of self lib strategy cs co kw] by simp

lemma get_splitter_stores:
  "get_splitter lib self strategy cs co kw = (Inr obj, s') \<Longrightarrow>
     splitters s' (cache_key strategy (py_or cs (CHUNK_SIZE (settings self)))
                     (py_or co (CHUNK_OVERLAP (settings self)))) = Some obj"
  by (auto simp: get_splitter_def Let_def split: option.splits sum.splits)

lemma get_splitter_hit:
  "splitters self (cache_key strategy (py_or cs (CHUNK_SIZE (settings self)))
                     (py_or co (CHUNK_OVERLAP (settings self)))) = Some obj \<Longrightarrow>
     get_splitter lib self strategy cs co kw = (Inr obj, self)"
  by (simp add: get_splitter_def Let_def)

lemma get_splitter_again:
  assumes "get_splitter lib self strategy cs co kw = (Inr obj, s1)" and "keeps s1 s2"
  shows "get_splitter lib s2 strategy cs co kw' = (Inr obj, s2)"
proof -
  have "keeps self s1" using assms(1) by (rule get_splitter_result_keeps)
  then have st: "settings s2 = settings self" using assms(2) by (simp add: keeps_def)
  have "splitters s1 (cache_key strategy (py_or cs (CHUNK_SIZE (settings self)))
                     (py_or co (CHUNK_OVERLAP (settings self)))) = Some obj"
    using assms(1) by (rule get_splitter_stores)
  then have "splitters s2 (cache_key strategy (py_or cs (CHUNK_SIZE (settings self)))
                     (py_or co (CHUNK_OVERLAP (settings self)))) = Some obj"
    using assms(2) by (cases obj) (simp add: keeps_def)
  then show ?thesis using st get_splitter_hit [of s2 strategy cs co obj lib kw'] by simp
qed

lemma split_text_keeps: "keeps self (snd (split_text lib self text strategy cs co md kw))"
proof -
  obtain r s1 where g1: "get_splitter lib self strategy cs co kw = (r, s1)"
    by (cases "get_splitter lib self strategy cs co kw")
  then have k1: "keeps self s1" by (rule get_splitter_result_keeps)
  obtain r2 s2 where g2: "get_splitter lib s1 ''recursive'' cs co Map.empty = (r2, s2)"
    by (cases "get_splitter lib s1 ''recursive'' cs co Map.empty")
  then have "keeps s1 s2" by (rule get_splitter_result_keeps)
  with k1 have k2: "keeps self s2" by (rule keeps_trans)
  show ?thesis using g1 g2 k1 k2
    by (auto simp: split_text_def Let_def split: sum.splits option.splits prod.splits)
qed

lemma split_each_keeps: "keeps self (snd (split_each lib self docs strategy cs co kw))"
proof (induction docs arbitrary: self)
  case Nil
  show ?case by (simp add: keeps_refl)
next
  case (Cons d ds)
  obtain r s1 where t: "split_text lib self (page_content d) strategy cs co (Some (metadata d)) kw = (r, s1)"
    by (cases "split_text lib self (page_content d) strategy cs co (Some (metadata d)) kw")
  have k1: "keeps self s1" using split_text_keeps [of self lib "page_content d" strategy cs co "Some (metadata d)" kw] t by simp
  have k2: "keeps self (snd (split_each lib s1 ds strategy cs co kw))"
    using k1 Cons.IH [of s1] by (rule keeps_trans)
  show ?case using t k1 k2
    by (auto split: sum.splits prod.splits)
qed

lemma split_documents_keeps: "keeps self (snd (split_documents lib self docs strategy cs co kw))"
proof -
  obtain r s1 where g1: "get_splitter lib self strategy cs co kw = (r, s1)"
    by (cases "get_splitter lib self strategy cs co kw")
  then have k1: "keeps self s1" by (rule get_splitter_result_keeps)
  have k2: "keeps self (snd (split_each lib s1 docs strategy cs co kw))"
    using k1 split_each_keeps by (rule keeps_trans)
  show ?thesis using g1 k1 k2
    by (auto simp: split_documents_def split: sum.splits prod.splits)
qed

lemma run_keeps: "keeps self (run lib op self)"
  by (cases op) (simp_all add: get_splitter_keeps split_text_keeps split_documents_keeps)

lemma run_all_keeps: "keeps self (run_all lib ops self)"
  unfolding run_all_def
proof (induction ops arbitrary: self)
  case Nil
  show ?case by (simp add: keeps_refl)
next
  case (Cons op ops)
  show ?case using run_keeps [of self lib op] Cons.IH [of "run lib op self"]
    by (simp add: keeps_trans)
qed

text \<open>
  A constructor that refuses its arguments makes \<^verbatim>\<open>get_splitter\<close> raise, and the cache
  stays as it was.
\<close>

lemma get_splitter_constructor_raises:
  "get_splitter window_library (ChunkingService example_settings) ''recursive''
     (Some 5) (Some 7) Map.empty
   = (Inl ValueError, ChunkingService example_settings)"
  by (simp add: get_splitter_def ChunkingService_def create_splitter_def construct_def
      kw_get_def Let_def window_library_def)

text \<open>
  C8.  Once a call of \<^verbatim>\<open>get_splitter\<close> has returned a splitter object, every later call
  on the same service with the same strategy, chunk size and overlap returns that very
  object, whatever calls were made on the service in between and whatever extra keyword
  arguments the later call passes; the later call builds nothing and leaves the service
  as it was.
\<close>

theorem get_splitter_cached:
  "get_splitter lib self strategy chunk_size chunk_overlap kw = (Inr obj, s1) \<Longrightarrow>
     get_splitter lib (run_all lib ops s1) strategy chunk_size chunk_overlap kw'
       = (Inr obj, run_all lib ops s1)"
  using get_splitter_again run_all_keeps by blast

theorem get_splitter_cached_witness:
  "fst (get_splitter window_library
          (run_all window_library
             [GetSplitter ''markdown'' None None Map.empty,
              SplitText ''abc'' ''recursive'' (Some 5) (Some 1) None [''separators'' \<mapsto> KList []]]
             (snd (get_splitter window_library (ChunkingService example_settings) ''recursive'' (Some 5) (Some 1)
                     Map.empty)))
          ''recursive'' (Some 5) (Some 1) [''separators'' \<mapsto> KList [KStr ''|'']])
   = Inr (0, RecursiveCharacterTextSplitter 5 1 default_separators (KBool False))"
proof -
  have h: "get_splitter window_library (ChunkingService example_settings) ''recursive'' (Some 5) (Some 1) Map.empty
     = (Inr (0, RecursiveCharacterTextSplitter 5 1 default_separators (KBool False)),
        snd (get_splitter window_library (ChunkingService example_settings) ''recursive'' (Some 5) (Some 1)
                     Map.empty))"
    by (simp add: get_splitter_def ChunkingService_def create_splitter_def construct_def kw_get_def Let_def
        window_library_def)
  show ?thesis using get_splitter_cached [OF h] by simp
qed

section \<open>Properties of split_text and split_documents\<close>








text \<open>
  For the strategies other than \<open>markdown\<close> and \<open>html\<close>, \<^verbatim>\<open>split_documents\<close> hands
  back what the library's splitter returns; it stamps nothing.
\<close>

lemma split_documents_plain:
  "\<not> is_structural strategy \<Longrightarrow>
   get_splitter lib self strategy chunk_size chunk_overlap kw = (Inr (i, sp), s1) \<Longrightarrow>
   split_documents lib self documents strategy chunk_size chunk_overlap kw
     = (Inr (lib_split_documents lib sp documents), s1)"
  by (simp add: split_documents_def)











section \<open>Properties of estimate_chunks and get_optimal_strategy\<close>

lemma floor_le_ceiling_div:
  "0 < (b::int) \<Longrightarrow> a div b \<le> - ((- a) div b) \<and> - ((- a) div b) \<le> a div b + 1"
  by (simp add: zdiv_zminus1_eq_if)

text \<open>
  C4, as stated, fails: the source divides with \<^verbatim>\<open>//\<close>, which rounds down.  For a text
  of 11 characters, chunk size 5 and overlap 1 the estimate is \<open>10 // 4 = 2\<close>, while the
  closed form with the ceiling gives 3.
\<close>

theorem estimate_chunks_ceiling_counterexample:
  "estimated_chunks
     (estimate_chunks (ChunkingService example_settings) ''abcdefghijk'' ''recursive''
        (Some 5) (Some 1)) = 2
   \<and> spec_estimate (int (length ''abcdefghijk'')) 5 1 = 3"
  by (simp add: estimate_chunks_def ChunkingService_def spec_estimate_def
      example_settings_def)

text \<open>
  C4, amended.  Let \<open>cs\<close> and \<open>co\<close> be the chunk size and the overlap after the
  defaults have replaced a missing or zero argument.  When \<open>co < cs\<close> the estimate is
  \<open>max(1, floor((len - co) / (cs - co)))\<close>, which is the ceiling form of the
  specification or one less; when \<open>cs \<le> co\<close> the estimate is 1 for any text.  The
  estimate does not depend on the splitter cache: no splitter is looked up or built.
\<close>

theorem estimate_chunks_floor:
  "let cs = py_or chunk_size (CHUNK_SIZE (settings self));
       co = py_or chunk_overlap (CHUNK_OVERLAP (settings self));
       n = int (length text);
       e = estimated_chunks (estimate_chunks self text strategy chunk_size chunk_overlap)
   in (co < cs \<longrightarrow> e = max 1 ((n - co) div (cs - co))
                    \<and> e \<le> spec_estimate n cs co \<and> spec_estimate n cs co \<le> e + 1)
    \<and> (cs \<le> co \<longrightarrow> e = 1)
    \<and> estimate_chunks (self\<lparr>splitters := c, allocated := a\<rparr>) text strategy
          chunk_size chunk_overlap
        = estimate_chunks self text strategy chunk_size chunk_overlap"
  using floor_le_ceiling_div
          [of "py_or chunk_size (CHUNK_SIZE (settings self))
                 - py_or chunk_overlap (CHUNK_OVERLAP (settings self))"
              "int (length text) - py_or chunk_overlap (CHUNK_OVERLAP (settings self))"]
  by (auto simp: estimate_chunks_def spec_estimate_def Let_def)

theorem estimate_chunks_floor_witness:
  "estimated_chunks
     (estimate_chunks (ChunkingService example_settings) ''abcdefghijk'' ''recursive''
        (Some 5) (Some 1)) = 2
   \<and> estimated_chunks
       (estimate_chunks (ChunkingService example_settings) ''abcdefghijk'' ''recursive''
          (Some 5) (Some 7)) = 1"
  using estimate_chunks_floor
          [of "Some 5" "ChunkingService example_settings" "Some 1" "''abcdefghijk''"
              "''recursive''"]
        estimate_chunks_floor
          [of "Some 5" "ChunkingService example_settings" "Some 7" "''abcdefghijk''"
              "''recursive''"]
  by (simp add: Let_def ChunkingService_def example_settings_def)

lemma lookup_recommendation_cases:
  "lookup_recommendation ct = r \<Longrightarrow>
     500 \<le> rec_chunk_size r \<and>
     (rec_chunk_overlap r = 200 \<or>
      (ct \<in> {''conversation'', ''structured''} \<and> rec_chunk_overlap r = 50))"
  by (auto simp: lookup_recommendation_def recommendations_def general_recommendation_def
      split: if_splits)

text \<open>
  C6, as stated, fails: the overlap is the smaller of the table's overlap and a fifth of
  the chunk size.  For \<open>conversation\<close> and an average length of 400 the overlap stays
  at the table's 50, not \<open>400 // 5 = 80\<close>.
\<close>

theorem get_optimal_strategy_overlap_counterexample:
  "rec_chunk_overlap (get_optimal_strategy ''conversation'' 400) = 50 \<and>
   rec_chunk_size (get_optimal_strategy ''conversation'' 400) div 5 = 80"
  by (simp add: get_optimal_strategy_def lookup_recommendation_def recommendations_def)

text \<open>
  C6, amended.  For every content type and every average length below 500 the
  recommended chunk size is the average length and the overlap is the minimum of the
  table's overlap and \<open>chunk_size // 5\<close>; that minimum is \<open>chunk_size // 5\<close> for every
  type but \<open>conversation\<close> and \<open>structured\<close>, and for those two below 255.  The two
  examples of the specification hold.
\<close>

theorem get_optimal_strategy_shrink:
  "(avg < 500 \<longrightarrow>
      rec_chunk_size (get_optimal_strategy ct avg) = avg \<and>
      rec_chunk_overlap (get_optimal_strategy ct avg)
        = min (rec_chunk_overlap (lookup_recommendation ct)) (avg div 5) \<and>
      (ct \<notin> {''conversation'', ''structured''} \<or> avg < 255 \<longrightarrow>
         rec_chunk_overlap (get_optimal_strategy ct avg) = avg div 5))
   \<and> rec_strategy (get_optimal_strategy ''markdown'' 2000) = ''markdown''
   \<and> rec_chunk_size (get_optimal_strategy ''markdown'' 2000) = 1000
   \<and> rec_chunk_overlap (get_optimal_strategy ''markdown'' 2000) = 200
   \<and> rec_chunk_size (get_optimal_strategy ''general'' 200) \<le> 200"
proof -
  have examples:
    "rec_strategy (get_optimal_strategy ''markdown'' 2000) = ''markdown''
     \<and> rec_chunk_size (get_optimal_strategy ''markdown'' 2000) = 1000
     \<and> rec_chunk_overlap (get_optimal_strategy ''markdown'' 2000) = 200
     \<and> rec_chunk_size (get_optimal_strategy ''general'' 200) \<le> 200"
    by (simp add: get_optimal_strategy_def lookup_recommendation_def recommendations_def
        general_recommendation_def)
  show ?thesis
    using lookup_recommendation_cases [of ct "lookup_recommendation ct"] examples
    by (auto simp: get_optimal_strategy_def Let_def)
qed

theorem get_optimal_strategy_shrink_witness:
  "rec_chunk_size (get_optimal_strategy ''conversation'' 400) = 400 \<and>
   rec_chunk_overlap (get_optimal_strategy ''conversation'' 400) = 50 \<and>
   rec_chunk_overlap (get_optimal_strategy ''general'' 200) = 40"
  using get_optimal_strategy_shrink [of 400 "''conversation''"]
        get_optimal_strategy_shrink [of 200 "''general''"]
  by (simp add: lookup_recommendation_def recommendations_def)

section \<open>Properties of query\<close>


lemma calls_of_append: "calls_of (a @ b) = calls_of a @ calls_of b"
  by (induction a rule: calls_of.induct) simp_all


lemma calls_of_tokens: "calls_of (map (\<lambda>c. Yield (Token c)) cs) = []"
  by (induction cs) simp_all

lemma calls_of_stream_end: "calls_of (stream_end failure) = []"
  by (cases failure) simp_all




text \<open>So does a chat model that breaks off: the tokens it gave are out, \<^verbatim>\<open>done\<close> is not.\<close>

lemma query_stream_cut:
  "events_of (fst (query failing_gateways example_rag ''Capital?'' True True None
                     ''similarity'' None))
   = [Sources [\<lparr>src_content = ''Paris'', src_metadata = Map.empty, src_score = VNone\<rparr>],
      Token ''Pa'']
   \<and> snd (query failing_gateways example_rag ''Capital?'' True True None ''similarity'' None)
     = Some GatewayError"
  by (simp add: query_def Let_def failing_gateways_def example_gateways_def source_of_def)






text \<open>The events of the completed run, written out.\<close>

lemma query_example_events:
  "events_of (fst (query example_gateways example_rag ''Capital?'' True True None
                     ''similarity'' (Some [[''role'' \<mapsto> ''user'', ''content'' \<mapsto> ''Hi'']])))
   = [Sources [\<lparr>src_content = ''Paris'', src_metadata = Map.empty, src_score = VNone\<rparr>],
      Token ''Pa'', Token ''ris'', Done]"
  by (simp add: query_def Let_def example_gateways_def source_of_def)

text \<open>
  C7.  With no chat history (\<^verbatim>\<open>None\<close> or the empty list) the gateway calls of a query
  are, in order: the retriever invoked with the question as given, and the one
  generation call on the QA prompt; no call rewrites the question.  The list stops
  early only where a call raises: it is empty when no retriever could be built, and the
  retrieval alone when the retrieval raises.
\<close>

theorem query_retrieves_with_question:
  "let k1 = py_or k (RETRIEVAL_K (rag_settings self));
       retrieve = RetrieverInvoke search_type k1 question;
       generate = (\<lambda>docs. (if stream then ChatAstream else ChatAinvoke)
                             (format_messages self (format_docs docs) question []));
       expected = (case as_retriever gw search_type k1 of
                     Some e \<Rightarrow> []
                   | None \<Rightarrow>
                       (case retriever_invoke gw search_type k1 question of
                          Inl e \<Rightarrow> [retrieve]
                        | Inr docs \<Rightarrow> [retrieve, generate docs]))
   in calls_of (fst (query gw self question stream include_sources k search_type None))
        = expected
    \<and> calls_of (fst (query gw self question stream include_sources k search_type (Some [])))
        = expected"
  by (simp add: query_def Let_def calls_of_append calls_of_tokens calls_of_stream_end
      split: option.splits sum.splits prod.splits)

text \<open>When the retrieval returns, that is the retrieval and the generation call.\<close>

lemma query_calls_when_retrieved:
  "as_retriever gw search_type (py_or k (RETRIEVAL_K (rag_settings self))) = None \<Longrightarrow>
   retriever_invoke gw search_type (py_or k (RETRIEVAL_K (rag_settings self))) question
     = Inr docs \<Longrightarrow>
   calls_of (fst (query gw self question stream include_sources k search_type None))
     = [RetrieverInvoke search_type (py_or k (RETRIEVAL_K (rag_settings self))) question,
        (if stream then ChatAstream else ChatAinvoke)
          (format_messages self (format_docs docs) question [])]"
  by (simp add: query_def Let_def calls_of_append calls_of_tokens calls_of_stream_end
      split: prod.splits sum.splits)

section \<open>Properties of the searches\<close>

text \<open>
  C5, as stated, fails: the default of \<^verbatim>\<open>fetch_k\<close> is the constant 20 in both
  \<^verbatim>\<open>mmr_search\<close> signatures.  With \<open>k = 50\<close> and no \<^verbatim>\<open>fetch_k\<close> the vector store is asked
  for a pool of 20, not of \<open>max(50, 20) = 50\<close>.
\<close>

theorem mmr_search_fetch_k_counterexample:
  "fetch_ks (fst (mmr_search example_gateways ''q'' (Some 50) None None)) = [20]
   \<and> max (50::int) 20 = 50"
  by (simp add: mmr_search_def qdrant_mmr_search_def Let_def)

text \<open>
  C5, amended.  Whenever the caller leaves \<^verbatim>\<open>fetch_k\<close> out, the candidate pool asked of
  the vector store has size 20, whatever \<open>k\<close> is.
\<close>

theorem mmr_search_default_fetch_k:
  "fetch_ks (fst (mmr_search gw q k None lambda_mult)) = [20]"
  by (simp add: mmr_search_def qdrant_mmr_search_def Let_def)

section \<open>Properties of the routes\<close>

text \<open>
  The binding of keywords does accept a call that names only parameters of \<^verbatim>\<open>query\<close>,
  as the non-streaming chat route makes it.
\<close>

lemma call_kw_query_accepts:
  "call_kw query_params query_required (query_method gw rag)
     [(''question'', AStr q), (''include_sources'', ABool b), (''stream'', ABool False)]
   = Inr (query gw rag q False b None ''similarity'' None)"
  by (simp add: call_kw_def query_params_def query_required_def query_method_def)

text \<open>
  C9.  For every request, the streaming chat route passes the keyword \<^verbatim>\<open>filters\<close>, which
  \<^verbatim>\<open>query\<close> does not have: the call raises \<^verbatim>\<open>TypeError\<close> and the stream carries no event.
\<close>

theorem chat_raises_type_error:
  "chat gw rag request = ([], Some TypeError)"
  by (simp add: chat_def call_kw_def query_params_def)

text \<open>
  C10.  For every request, \<^verbatim>\<open>POST /rag/index\<close> passes \<^verbatim>\<open>texts\<close> and \<^verbatim>\<open>metadatas\<close> to
  \<^verbatim>\<open>index_documents\<close>, and \<^verbatim>\<open>POST /rag/search\<close> passes \<^verbatim>\<open>score_threshold\<close> to
  \<^verbatim>\<open>search\<close>; neither method has such a parameter, and both calls raise \<^verbatim>\<open>TypeError\<close>.
\<close>

theorem rag_routes_raise_type_error:
  "index_documents_route index_req = Inl TypeError \<and>
   search_route gw search_req = Inl TypeError"
  by (simp add: index_documents_route_def search_route_def call_kw_def
      index_documents_params_def search_params_def)


end
